theory Spec2Isabelle
  imports Main "HOL-Library.Word" "HOL-Library.Sublist"
begin

unbundle bit_operations_syntax

section \<open>Python values: exceptions, shifts, byte arrays\<close>

text \<open>
  The driver is Python: integers are unbounded (\<open>int\<close>), \<open>&\<close>, \<open>|\<close> and \<open>~\<close> are the
  two's-complement operations \<open>AND\<close>, \<open>OR\<close> and \<open>NOT\<close> on \<open>int\<close>, and an exception is a
  value of \<open>error\<close>. \<open>OSError\<close> is what the bus raises when a transaction fails,
  \<open>ValueError\<close> is raised by a negative shift count, by a byte outside 0..255 and by the
  direction setter, \<open>AssertionError\<close> by \<open>get_pin\<close>, \<open>AttributeError\<close> by the lookup of
  an attribute the object does not have.
\<close>

datatype error = OSError | ValueError | AssertionError | AttributeError

text \<open>\<open>a << n\<close> and \<open>a >> n\<close>: Python raises ValueError on a negative shift count.\<close>

definition lshift :: "int \<Rightarrow> int \<Rightarrow> error + int" where
  "lshift a n = (if n < 0 then Inl ValueError else Inr (push_bit (nat n) a))"

definition rshift :: "int \<Rightarrow> int \<Rightarrow> error + int" where
  "rshift a n = (if n < 0 then Inl ValueError else Inr (drop_bit (nat n) a))"

text \<open>An element of a \<open>bytearray\<close> is an integer in 0..255; anything else raises ValueError,
  both in the constructor \<open>bytearray([...])\<close> and in an item assignment.\<close>

definition is_byte :: "int \<Rightarrow> bool" where
  "is_byte x = (0 \<le> x \<and> x \<le> 255)"

definition bytearray :: "int list \<Rightarrow> error + int list" where
  "bytearray xs = (if list_all is_byte xs then Inr xs else Inl ValueError)"

section \<open>The I2C bus and the device handle\<close>

text \<open>
  The bus is an external collaborator. Its model keeps the transactions the driver has
  requested, in order (\<open>bus_trace\<close>), and a script of the outcomes of the transactions
  to come (\<open>bus_script\<close>): \<open>Nack\<close> is a failed transaction, \<open>Ack b\<close> a successful one,
  where \<open>b\<close> is the byte a read transfers (a write ignores it). A bus whose script is used
  up fails. Every theorem below holds for every script, that is for every behaviour of
  the bus and the chip. The driver only ever reads into one-byte buffers.
  Acquiring the bus lock (\<open>with self.i2c_device as i2c\<close>) is not modelled: the driver is
  single-threaded and the lock is free. The device handle \<open>I2CDevice\<close> is the bus together
  with the 7-bit address.
\<close>

datatype txn =
    Writeto int "int list"
  | Readfrom int nat
  | Writeto_then_readfrom int "int list" nat

datatype reply = Nack | Ack "8 word"

record I2C =
  bus_trace :: "txn list"
  bus_script :: "reply list"

record I2CDevice =
  i2c :: I2C
  device_address :: int

definition transact :: "txn \<Rightarrow> I2C \<Rightarrow> (error + 8 word) \<times> I2C" where
  "transact t bus =
     (let logged = bus\<lparr>bus_trace := bus_trace bus @ [t]\<rparr>
      in case bus_script bus of
           [] \<Rightarrow> (Inl OSError, logged)
         | Nack # rs \<Rightarrow> (Inl OSError, logged\<lparr>bus_script := rs\<rparr>)
         | Ack b # rs \<Rightarrow> (Inr b, logged\<lparr>bus_script := rs\<rparr>))"

text \<open>\<open>i2c.write(buf)\<close>.\<close>

definition i2c_write :: "int list \<Rightarrow> I2CDevice \<Rightarrow> (error + unit) \<times> I2CDevice" where
  "i2c_write buf dev =
     (case transact (Writeto (device_address dev) buf) (i2c dev) of
        (Inl e, bus) \<Rightarrow> (Inl e, dev\<lparr>i2c := bus\<rparr>)
      | (Inr b, bus) \<Rightarrow> (Inr (), dev\<lparr>i2c := bus\<rparr>))"

text \<open>\<open>i2c.write_then_readinto(out, buf)\<close> for a one-byte \<open>buf\<close>; the result is the
  byte left in \<open>buf[0]\<close>.\<close>

definition i2c_write_then_readinto :: "int list \<Rightarrow> I2CDevice \<Rightarrow> (error + int) \<times> I2CDevice" where
  "i2c_write_then_readinto out dev =
     (case transact (Writeto_then_readfrom (device_address dev) out 1) (i2c dev) of
        (Inl e, bus) \<Rightarrow> (Inl e, dev\<lparr>i2c := bus\<rparr>)
      | (Inr b, bus) \<Rightarrow> (Inr (uint b), dev\<lparr>i2c := bus\<rparr>))"

text \<open>
  \<open>I2CDevice(i2c, address)\<close>, as the driver calls it, leaves the argument \<open>probe\<close> of the
  constructor at its default \<open>True\<close>. The constructor belongs to the library
  \<open>adafruit_bus_device\<close>, not to the driver; with \<open>probe\<close> true it looks for the chip
  before it returns the handle:
  \<^verbatim>\<open>
  try:
      self.i2c.writeto(self.device_address, b"")
  except OSError:
      try:
          result = bytearray(1)
          self.i2c.readfrom_into(self.device_address, result)
      except OSError:
          raise ValueError("No I2C device at address: 0x%x" % self.device_address)
  \<close>
  An empty write; when it fails, a one-byte read; when that fails too, ValueError.
\<close>

definition probe_for_device :: "I2CDevice \<Rightarrow> (error + unit) \<times> I2CDevice" where
  "probe_for_device dev =
     (case transact (Writeto (device_address dev) []) (i2c dev) of
        (Inr b, bus) \<Rightarrow> (Inr (), dev\<lparr>i2c := bus\<rparr>)
      | (Inl e, bus) \<Rightarrow>
          (case transact (Readfrom (device_address dev) 1) bus of
             (Inr b, bus') \<Rightarrow> (Inr (), dev\<lparr>i2c := bus'\<rparr>)
           | (Inl e', bus') \<Rightarrow> (Inl ValueError, dev\<lparr>i2c := bus'\<rparr>)))"

definition I2CDevice_init :: "I2C \<Rightarrow> int \<Rightarrow> (error + unit) \<times> I2CDevice" where
  "I2CDevice_init bus address = probe_for_device \<lparr>i2c = bus, device_address = address\<rparr>"

section \<open>Register addresses\<close>

definition TCA9534_DEFAULT_I2C_ADDR :: int where
  "TCA9534_DEFAULT_I2C_ADDR = 0x20"

definition TCA9534_REGISTER_INPUT_PORT :: int where
  "TCA9534_REGISTER_INPUT_PORT = 0x00"

definition TCA9534_REGISTER_OUTPUT_PORT :: int where
  "TCA9534_REGISTER_OUTPUT_PORT = 0x01"

definition TCA9534_REGISTER_INVERSION :: int where
  "TCA9534_REGISTER_INVERSION = 0x02"

definition TCA9534_REGISTER_CONFIGURATION :: int where
  "TCA9534_REGISTER_CONFIGURATION = 0x03"

section \<open>class TCA9534\<close>

text \<open>
  The object: the device handle and the three one-byte arrays \<open>_output\<close>, \<open>_inversion\<close>
  and \<open>_configuration\<close> (fields \<open>tca_output\<close>, \<open>tca_inversion\<close>, \<open>tca_configuration\<close>:
  the element 0 of each). A method is a function from the object to its result, a
  value or an exception, and the object afterwards: what a method has stored before it
  raises stays stored.
\<close>

record TCA9534 =
  i2c_device :: I2CDevice
  tca_output :: int
  tca_inversion :: int
  tca_configuration :: int

type_synonym 'a action = "TCA9534 \<Rightarrow> (error + 'a) \<times> TCA9534"

definition ret :: "'a \<Rightarrow> 'a action" where
  "ret x s = (Inr x, s)"

definition raise :: "error \<Rightarrow> 'a action" where
  "raise e s = (Inl e, s)"

definition lift :: "error + 'a \<Rightarrow> 'a action" where
  "lift r s = (r, s)"

text \<open>Sequencing: an exception of the first part skips the rest.\<close>

definition seq :: "'a action \<Rightarrow> ('a \<Rightarrow> 'b action) \<Rightarrow> 'b action" where
  "seq m f s = (case m s of (Inl e, s') \<Rightarrow> (Inl e, s') | (Inr x, s') \<Rightarrow> f x s')"

definition on_device :: "(I2CDevice \<Rightarrow> (error + 'a) \<times> I2CDevice) \<Rightarrow> 'a action" where
  "on_device f s = (case f (i2c_device s) of (r, dev) \<Rightarrow> (r, s\<lparr>i2c_device := dev\<rparr>))"

text \<open>\<open>self._output[0]\<close> and \<open>self._output[0] = v\<close>, and the same for the other two.\<close>

definition get_output :: "int action" where
  "get_output s = (Inr (tca_output s), s)"

definition set_output :: "int \<Rightarrow> unit action" where
  "set_output v s = (if is_byte v then (Inr (), s\<lparr>tca_output := v\<rparr>) else (Inl ValueError, s))"

definition get_inversion :: "int action" where
  "get_inversion s = (Inr (tca_inversion s), s)"

definition set_inversion :: "int \<Rightarrow> unit action" where
  "set_inversion v s = (if is_byte v then (Inr (), s\<lparr>tca_inversion := v\<rparr>) else (Inl ValueError, s))"

definition get_configuration :: "int action" where
  "get_configuration s = (Inr (tca_configuration s), s)"

definition set_configuration :: "int \<Rightarrow> unit action" where
  "set_configuration v s =
     (if is_byte v then (Inr (), s\<lparr>tca_configuration := v\<rparr>) else (Inl ValueError, s))"

subsection \<open>The constructor\<close>

text \<open>The block under \<open>if reset:\<close>: three writes.\<close>

definition reset_registers :: "unit action" where
  "reset_registers =
     seq (on_device (i2c_write [TCA9534_REGISTER_CONFIGURATION, 0xFF])) (\<lambda>_.
     seq (on_device (i2c_write [TCA9534_REGISTER_INVERSION, 0x00])) (\<lambda>_.
     on_device (i2c_write [TCA9534_REGISTER_OUTPUT_PORT, 0xFF])))"

text \<open>The second \<open>with\<close> block: three reads, each into its byte array. The byte that
  arrives is stored as the element 0 of the array; it is in 0..255, so the store cannot
  raise.\<close>

definition read_back :: "unit action" where
  "read_back =
     seq (on_device (i2c_write_then_readinto [TCA9534_REGISTER_OUTPUT_PORT])) (\<lambda>b.
     seq (set_output b) (\<lambda>_.
     seq (on_device (i2c_write_then_readinto [TCA9534_REGISTER_INVERSION])) (\<lambda>b.
     seq (set_inversion b) (\<lambda>_.
     seq (on_device (i2c_write_then_readinto [TCA9534_REGISTER_CONFIGURATION])) (\<lambda>b.
     set_configuration b)))))"

text \<open>The two \<open>with\<close> blocks of \<open>__init__\<close>, the first under \<open>if reset:\<close>.\<close>

definition init_registers :: "bool \<Rightarrow> unit action" where
  "init_registers reset = seq (if reset then reset_registers else ret ()) (\<lambda>_. read_back)"

text \<open>\<open>TCA9534(i2c, address, reset)\<close>: the device handle is made first, with its probe,
  then the three byte arrays, each \<open>[0]\<close>, then the reset and the reads. When the result is
  an exception the caller gets no object; the state returned then still holds the bus as
  the constructor left it.\<close>

definition init :: "I2C \<Rightarrow> int \<Rightarrow> bool \<Rightarrow> (error + unit) \<times> TCA9534" where
  "init bus address reset =
     (case I2CDevice_init bus address of
        (Inl e, dev) \<Rightarrow>
          (Inl e,
           \<lparr>i2c_device = dev, tca_output = 0, tca_inversion = 0, tca_configuration = 0\<rparr>)
      | (Inr u, dev) \<Rightarrow>
          init_registers reset
            \<lparr>i2c_device = dev, tca_output = 0, tca_inversion = 0, tca_configuration = 0\<rparr>)"

subsection \<open>Whole-port methods\<close>

definition read_gpio :: "int action" where
  "read_gpio = on_device (i2c_write_then_readinto [TCA9534_REGISTER_INPUT_PORT])"

definition write_gpio :: "int \<Rightarrow> unit action" where
  "write_gpio val =
     seq (set_output (val AND 0xFF)) (\<lambda>_.
     seq get_output (\<lambda>out.
     seq (lift (bytearray [TCA9534_REGISTER_OUTPUT_PORT, out])) (\<lambda>buf.
     on_device (i2c_write buf))))"

definition set_iodir :: "int \<Rightarrow> unit action" where
  "set_iodir val =
     seq (set_configuration (val AND 0xFF)) (\<lambda>_.
     seq get_configuration (\<lambda>conf.
     seq (lift (bytearray [TCA9534_REGISTER_CONFIGURATION, conf])) (\<lambda>buf.
     on_device (i2c_write buf))))"

definition get_iodir :: "int action" where
  "get_iodir = get_configuration"

definition get_inv :: "int action" where
  "get_inv = get_inversion"

definition set_inv :: "int \<Rightarrow> unit action" where
  "set_inv val =
     seq (set_inversion (val AND 0xFF)) (\<lambda>_.
     seq get_inversion (\<lambda>inv.
     seq (lift (bytearray [TCA9534_REGISTER_INVERSION, inv])) (\<lambda>buf.
     on_device (i2c_write buf))))"

subsection \<open>Single-pin methods\<close>

text \<open>A pin handle holds its pin number (\<open>_pin\<close>); its reference \<open>_tca\<close> to the owning
  object is the state that its methods take and return.\<close>

record DigitalInOut =
  dio_pin :: int

definition DigitalInOut_init :: "int \<Rightarrow> DigitalInOut" where
  "DigitalInOut_init pin_number = \<lparr>dio_pin = pin_number\<rparr>"

definition get_pin :: "int \<Rightarrow> DigitalInOut action" where
  "get_pin pin = (if 0 \<le> pin \<and> pin \<le> 7 then ret (DigitalInOut_init pin) else raise AssertionError)"

text \<open>\<open>self.output\<close>: \<open>__init__\<close> binds \<open>i2c_device\<close>, \<open>_output\<close>, \<open>_inversion\<close> and
  \<open>_configuration\<close>, and the class body defines the methods only; no attribute is
  called \<open>output\<close>, so the lookup raises AttributeError.\<close>

definition self_output :: "int action" where
  "self_output = raise AttributeError"

text \<open>In \<open>write_pin\<close> the argument \<open>self.output | (1<<pin)\<close> is evaluated left to right,
  before \<open>write_gpio\<close> is called.\<close>

definition write_pin :: "int \<Rightarrow> bool \<Rightarrow> unit action" where
  "write_pin pin val =
     (if val then
        seq self_output (\<lambda>out.
        seq (lift (lshift 1 pin)) (\<lambda>m.
        write_gpio (out OR m)))
      else
        seq self_output (\<lambda>out.
        seq (lift (lshift 1 pin)) (\<lambda>m.
        write_gpio (out AND NOT m))))"

definition read_pin :: "int \<Rightarrow> int action" where
  "read_pin pin =
     seq read_gpio (\<lambda>g.
     seq (lift (rshift g pin)) (\<lambda>x.
     ret (x AND 0x1)))"

section \<open>class DigitalInOut\<close>

datatype Direction = INPUT | OUTPUT

text \<open>The argument of \<open>set_iodir\<close> in \<open>switch_to_output\<close>, \<open>switch_to_input\<close> and the
  direction setter: \<open>((conf & (1<<pin)) >> pin) & ~(1<<pin)\<close> for an output and
  \<open>((conf & (1<<pin)) >> pin) | (1<<pin)\<close> for an input.\<close>

definition iodir_for_output :: "int \<Rightarrow> int action" where
  "iodir_for_output pin =
     seq get_configuration (\<lambda>conf.
     seq (lift (lshift 1 pin)) (\<lambda>m.
     seq (lift (rshift (conf AND m) pin)) (\<lambda>b.
     seq (lift (lshift 1 pin)) (\<lambda>m'.
     ret (b AND NOT m')))))"

definition iodir_for_input :: "int \<Rightarrow> int action" where
  "iodir_for_input pin =
     seq get_configuration (\<lambda>conf.
     seq (lift (lshift 1 pin)) (\<lambda>m.
     seq (lift (rshift (conf AND m) pin)) (\<lambda>b.
     seq (lift (lshift 1 pin)) (\<lambda>m'.
     ret (b OR m')))))"

text \<open>The value setter; \<open>switch_to_output\<close> below starts with the same statement.\<close>

definition value_set :: "DigitalInOut \<Rightarrow> bool \<Rightarrow> unit action" where
  "value_set d val =
     (if val then
        seq get_output (\<lambda>out.
        seq (lift (lshift 1 (dio_pin d))) (\<lambda>m.
        write_gpio (out OR m)))
      else
        seq get_output (\<lambda>out.
        seq (lift (lshift 1 (dio_pin d))) (\<lambda>m.
        write_gpio (out AND NOT m))))"

definition switch_to_output :: "DigitalInOut \<Rightarrow> bool \<Rightarrow> unit action" where
  "switch_to_output d val =
     seq (if val then
            seq get_output (\<lambda>out.
            seq (lift (lshift 1 (dio_pin d))) (\<lambda>m.
            write_gpio (out OR m)))
          else
            seq get_output (\<lambda>out.
            seq (lift (lshift 1 (dio_pin d))) (\<lambda>m.
            write_gpio (out AND NOT m)))) (\<lambda>_.
     seq (iodir_for_output (dio_pin d)) (\<lambda>v.
     set_iodir v))"

definition switch_to_input :: "DigitalInOut \<Rightarrow> unit action" where
  "switch_to_input d = seq (iodir_for_input (dio_pin d)) (\<lambda>v. set_iodir v)"

text \<open>The value getter: \<open>(read_gpio() & (1<<pin)) >> pin\<close>, the bus read first.\<close>

definition value_get :: "DigitalInOut \<Rightarrow> int action" where
  "value_get d =
     seq read_gpio (\<lambda>g.
     seq (lift (lshift 1 (dio_pin d))) (\<lambda>m.
     lift (rshift (g AND m) (dio_pin d))))"

definition direction_get :: "DigitalInOut \<Rightarrow> Direction action" where
  "direction_get d =
     seq get_configuration (\<lambda>conf.
     seq (lift (lshift 1 (dio_pin d))) (\<lambda>m.
     seq (lift (rshift (conf AND m) (dio_pin d))) (\<lambda>b.
     ret (if b \<noteq> 0 then INPUT else OUTPUT))))"

text \<open>The direction setter. Its argument is \<open>Some\<close> of a direction, or \<open>None\<close> for any
  object that is neither \<open>Direction.INPUT\<close> nor \<open>Direction.OUTPUT\<close>.\<close>

definition direction_set :: "DigitalInOut \<Rightarrow> Direction option \<Rightarrow> unit action" where
  "direction_set d val =
     (if val = Some INPUT then seq (iodir_for_input (dio_pin d)) (\<lambda>v. set_iodir v)
      else if val = Some OUTPUT then seq (iodir_for_output (dio_pin d)) (\<lambda>v. set_iodir v)
      else raise ValueError)"

text \<open>The polarity getter. Python's \<open>>>\<close> binds tighter than \<open>&\<close>, and \<open><<\<close> and \<open>>>\<close>
  associate to the left: \<open>inv & (1<<pin) >> pin\<close> is \<open>inv & ((1<<pin) >> pin)\<close>.\<close>

definition invert_polarity_get :: "DigitalInOut \<Rightarrow> int action" where
  "invert_polarity_get d =
     seq get_inversion (\<lambda>inv.
     seq (lift (lshift 1 (dio_pin d))) (\<lambda>m.
     seq (lift (rshift m (dio_pin d))) (\<lambda>k.
     ret (inv AND k))))"

definition invert_polarity_set :: "DigitalInOut \<Rightarrow> bool \<Rightarrow> unit action" where
  "invert_polarity_set d val =
     (if val then
        seq get_inv (\<lambda>inv.
        seq (lift (lshift 1 (dio_pin d))) (\<lambda>m.
        set_inv (inv OR m)))
      else
        seq get_inv (\<lambda>inv.
        seq (lift (lshift 1 (dio_pin d))) (\<lambda>m.
        set_inv (inv AND NOT m))))"

section \<open>Observations\<close>

text \<open>The transactions requested so far on the bus of an object, and the outcomes its bus
  still holds.\<close>

definition transactions :: "TCA9534 \<Rightarrow> txn list" where
  "transactions s = bus_trace (i2c (i2c_device s))"

definition pending :: "TCA9534 \<Rightarrow> reply list" where
  "pending s = bus_script (i2c (i2c_device s))"

text \<open>An object at the default address, on a bus with nothing requested yet.\<close>

definition tca_at :: "reply list \<Rightarrow> int \<Rightarrow> int \<Rightarrow> int \<Rightarrow> TCA9534" where
  "tca_at script out inver conf =
     \<lparr>i2c_device = \<lparr>i2c = \<lparr>bus_trace = [], bus_script = script\<rparr>,
                     device_address = TCA9534_DEFAULT_I2C_ADDR\<rparr>,
      tca_output = out, tca_inversion = inver, tca_configuration = conf\<rparr>"

text \<open>The next transaction fails: the script is used up or starts with \<open>Nack\<close>.\<close>

definition next_fails :: "TCA9534 \<Rightarrow> bool" where
  "next_fails s = (case pending s of [] \<Rightarrow> True | Nack # rs \<Rightarrow> True | Ack b # rs \<Rightarrow> False)"

text \<open>The transactions of the probe: the empty write, and the one-byte read when the bus
  does not acknowledge the write.\<close>

definition probe_acked :: "I2C \<Rightarrow> bool" where
  "probe_acked bus = (case bus_script bus of Ack b # rs \<Rightarrow> True | _ \<Rightarrow> False)"

definition probe_txns :: "int \<Rightarrow> bool \<Rightarrow> txn list" where
  "probe_txns a acked = (if acked then [Writeto a []] else [Writeto a [], Readfrom a 1])"



text \<open>The three cached bytes are bytes.\<close>

definition cache_in_range :: "TCA9534 \<Rightarrow> bool" where
  "cache_in_range s =
     (is_byte (tca_output s) \<and> is_byte (tca_inversion s) \<and> is_byte (tca_configuration s))"

text \<open>Any sequence of calls on an object and on pin handles of it (a handle is given by
  its pin number, whatever it is: \<open>DigitalInOut\<close> can be built without \<open>get_pin\<close>). A
  call that raises leaves the object as it was at the raise, and the sequence goes on,
  as it does for a caller that catches the exception.\<close>

datatype call =
    Read_gpio
  | Write_gpio int
  | Set_iodir int
  | Get_iodir
  | Get_inv
  | Set_inv int
  | Get_pin int
  | Write_pin int bool
  | Read_pin int
  | Switch_to_output int bool
  | Switch_to_input int
  | Value_get int
  | Value_set int bool
  | Direction_get int
  | Direction_set int "Direction option"
  | Invert_polarity_get int
  | Invert_polarity_set int bool

fun perform :: "call \<Rightarrow> TCA9534 \<Rightarrow> TCA9534" where
  "perform Read_gpio s = snd (read_gpio s)"
| "perform (Write_gpio v) s = snd (write_gpio v s)"
| "perform (Set_iodir v) s = snd (set_iodir v s)"
| "perform Get_iodir s = snd (get_iodir s)"
| "perform Get_inv s = snd (get_inv s)"
| "perform (Set_inv v) s = snd (set_inv v s)"
| "perform (Get_pin p) s = snd (get_pin p s)"
| "perform (Write_pin p v) s = snd (write_pin p v s)"
| "perform (Read_pin p) s = snd (read_pin p s)"
| "perform (Switch_to_output p v) s = snd (switch_to_output (DigitalInOut_init p) v s)"
| "perform (Switch_to_input p) s = snd (switch_to_input (DigitalInOut_init p) s)"
| "perform (Value_get p) s = snd (value_get (DigitalInOut_init p) s)"
| "perform (Value_set p v) s = snd (value_set (DigitalInOut_init p) v s)"
| "perform (Direction_get p) s = snd (direction_get (DigitalInOut_init p) s)"
| "perform (Direction_set p v) s = snd (direction_set (DigitalInOut_init p) v s)"
| "perform (Invert_polarity_get p) s = snd (invert_polarity_get (DigitalInOut_init p) s)"
| "perform (Invert_polarity_set p v) s = snd (invert_polarity_set (DigitalInOut_init p) v s)"

fun run :: "call list \<Rightarrow> TCA9534 \<Rightarrow> TCA9534" where
  "run [] s = s"
| "run (c # cs) s = run cs (perform c s)"

text \<open>An action that keeps the three cached bytes bytes.\<close>

definition preserves :: "'a action \<Rightarrow> bool" where
  "preserves m = (\<forall>s. cache_in_range s \<longrightarrow> cache_in_range (snd (m s)))"

section \<open>Basic facts\<close>

lemma is_byte_and_255: "is_byte (v AND 255)"
  unfolding is_byte_def by (simp add: AND_upper2')

lemma bit_255_iff: "bit (255 :: int) n \<longleftrightarrow> n < 8"
proof -
  have "(255 :: int) = mask 8" by (simp add: mask_eq_exp_minus_1)
  then show ?thesis by (simp only: bit_mask_iff) simp
qed

text \<open>The three setters never raise ValueError: the byte they store and send is masked.\<close>

lemma write_gpio_eq:
  "write_gpio val s =
     on_device (i2c_write [TCA9534_REGISTER_OUTPUT_PORT, val AND 255])
       (s\<lparr>tca_output := val AND 255\<rparr>)"
  by (simp add: write_gpio_def seq_def set_output_def get_output_def lift_def bytearray_def
      is_byte_and_255 TCA9534_REGISTER_OUTPUT_PORT_def is_byte_def)

lemma set_iodir_eq:
  "set_iodir val s =
     on_device (i2c_write [TCA9534_REGISTER_CONFIGURATION, val AND 255])
       (s\<lparr>tca_configuration := val AND 255\<rparr>)"
  by (simp add: set_iodir_def seq_def set_configuration_def get_configuration_def lift_def
      bytearray_def is_byte_and_255 TCA9534_REGISTER_CONFIGURATION_def is_byte_def)

lemma set_inv_eq:
  "set_inv val s =
     on_device (i2c_write [TCA9534_REGISTER_INVERSION, val AND 255])
       (s\<lparr>tca_inversion := val AND 255\<rparr>)"
  by (simp add: set_inv_def seq_def set_inversion_def get_inversion_def lift_def
      bytearray_def is_byte_and_255 TCA9534_REGISTER_INVERSION_def is_byte_def)

lemma on_device_cache:
  "tca_output (snd (on_device f s)) = tca_output s"
  "tca_inversion (snd (on_device f s)) = tca_inversion s"
  "tca_configuration (snd (on_device f s)) = tca_configuration s"
  by (simp_all add: on_device_def split: prod.splits)

section \<open>The value setter\<close>

lemma value_set_output:
  assumes "0 \<le> dio_pin d"
  shows "tca_output (snd (value_set d val s)) =
           (if val then tca_output s OR push_bit (nat (dio_pin d)) 1
            else tca_output s AND NOT (push_bit (nat (dio_pin d)) 1)) AND 255"
  using assms
  by (simp add: value_set_def seq_def get_output_def lift_def lshift_def write_gpio_eq
      on_device_cache)

text \<open>
  Claim C7. For a handle of pin \<open>p\<close> in 0..7, any value and any cached output byte, whether
  the bus write succeeds or not: after the value setter, bit \<open>p\<close> of the cached output
  byte is the value, every other bit \<open>n < 8\<close> of it is what it was, and it is a byte.
\<close>

theorem value_set_bits:
  assumes "0 \<le> dio_pin d" and "dio_pin d \<le> 7" and "n < 8"
  shows "(bit (tca_output (snd (value_set d val s))) n
            \<longleftrightarrow> (if n = nat (dio_pin d) then val else bit (tca_output s) n))
         \<and> is_byte (tca_output (snd (value_set d val s)))"
proof -
  have "bit (tca_output (snd (value_set d val s))) n
          \<longleftrightarrow> (if n = nat (dio_pin d) then val else bit (tca_output s) n)"
    using assms
    by (auto simp add: value_set_output bit_and_iff bit_or_iff bit_not_iff bit_push_bit_iff
        bit_255_iff bit_1_iff bit_exp_iff)
  moreover have "is_byte (tca_output (snd (value_set d val s)))"
    using assms(1) by (simp only: value_set_output is_byte_and_255)
  ultimately show ?thesis by simp
qed

text \<open>Pin 3 set on the byte 0x41, with a bus that acknowledges: the byte becomes 0x49;
  bit 3 is set and bit 6 is kept.\<close>

theorem value_set_bits_witness:
  "tca_output (snd (value_set (DigitalInOut_init 3) True (tca_at [Ack 0] 0x41 0 0xFF))) = 0x49
   \<and> bit (tca_output (snd (value_set (DigitalInOut_init 3) True (tca_at [Ack 0] 0x41 0 0xFF)))) 3
   \<and> bit (tca_output (snd (value_set (DigitalInOut_init 3) True (tca_at [Ack 0] 0x41 0 0xFF)))) 6"
  using value_set_bits [of "DigitalInOut_init 3" 3 True "tca_at [Ack 0] 0x41 0 0xFF"]
    value_set_bits [of "DigitalInOut_init 3" 6 True "tca_at [Ack 0] 0x41 0 0xFF"]
  by (simp add: DigitalInOut_init_def tca_at_def value_set_output)

section \<open>One transaction\<close>

lemma on_device_write_fails:
  "next_fails s \<Longrightarrow> fst (on_device (i2c_write buf) s) = Inl OSError"
  by (simp add: on_device_def i2c_write_def transact_def Let_def pending_def next_fails_def
      split: list.splits reply.splits)

lemma on_device_write_trace:
  "transactions (snd (on_device (i2c_write buf) s)) =
     transactions s @ [Writeto (device_address (i2c_device s)) buf]"
  by (simp add: on_device_def i2c_write_def transact_def Let_def transactions_def
      split: list.splits reply.splits)

lemma on_device_write_result:
  "fst (on_device (i2c_write buf) s) = (if next_fails s then Inl OSError else Inr ())"
  by (simp add: on_device_def i2c_write_def transact_def Let_def pending_def next_fails_def
      split: list.splits reply.splits)


lemma and_255_mod: "(v :: int) AND 255 = v mod 256"
proof -
  have "v AND mask 8 = take_bit 8 v" by (simp only: take_bit_eq_mask)
  then show ?thesis by (simp add: mask_eq_exp_minus_1 take_bit_eq_mod)
qed

section \<open>The direction mask\<close>

text \<open>
  Claim C6. For every mask in 0..255, \<open>get_iodir\<close> after \<open>set_iodir mask\<close> returns the
  mask, whether the bus write of \<open>set_iodir\<close> succeeded or raised; and \<open>get_iodir\<close>
  leaves the object, its bus included, as it found it: it requests no transaction.
\<close>

theorem set_iodir_get_iodir:
  assumes "0 \<le> v" and "v \<le> 255"
  shows "fst (get_iodir (snd (set_iodir v s))) = Inr v \<and> snd (get_iodir t) = t"
proof -
  have "v AND 255 = v"
  proof -
    have "v AND mask 8 = take_bit 8 v" by (simp only: take_bit_eq_mask)
    also have "\<dots> = v" using assms by (simp add: take_bit_int_eq_self)
    finally show ?thesis by (simp add: mask_eq_exp_minus_1)
  qed
  then show ?thesis
    by (simp add: get_iodir_def get_configuration_def set_iodir_eq on_device_cache)
qed

theorem set_iodir_get_iodir_witness:
  "fst (get_iodir (snd (set_iodir 0xA5 (tca_at [Nack] 0xFF 0 0xFF)))) = Inr 0xA5
   \<and> snd (get_iodir (tca_at [Ack 0] 0xFF 0 0x5A)) = tca_at [Ack 0] 0xFF 0 0x5A"
  using set_iodir_get_iodir [of "0xA5" "tca_at [Nack] 0xFF 0 0xFF" "tca_at [Ack 0] 0xFF 0 0x5A"]
  by simp

section \<open>Pin handles\<close>

text \<open>
  Claim C8. \<open>get_pin pin\<close> returns a handle whose pin number is \<open>pin\<close> when \<open>pin\<close> is in
  0..7, and raises AssertionError for every other integer, 8 and -1 among them; the
  object is untouched either way.
\<close>

theorem get_pin_range:
  "(0 \<le> pin \<and> pin \<le> 7 \<longrightarrow>
      get_pin pin s = (Inr (DigitalInOut_init pin), s) \<and> dio_pin (DigitalInOut_init pin) = pin)
   \<and> (pin < 0 \<or> 7 < pin \<longrightarrow> get_pin pin s = (Inl AssertionError, s))"
  by (simp add: get_pin_def ret_def raise_def DigitalInOut_init_def)

theorem get_pin_range_witness:
  "get_pin 3 (tca_at [] 0xFF 0 0xFF) = (Inr (DigitalInOut_init 3), tca_at [] 0xFF 0 0xFF)
   \<and> dio_pin (DigitalInOut_init 3) = 3
   \<and> get_pin 8 (tca_at [] 0xFF 0 0xFF) = (Inl AssertionError, tca_at [] 0xFF 0 0xFF)
   \<and> get_pin (- 1) (tca_at [] 0xFF 0 0xFF) = (Inl AssertionError, tca_at [] 0xFF 0 0xFF)"
  using get_pin_range [of 3 "tca_at [] 0xFF 0 0xFF"]
    get_pin_range [of 8 "tca_at [] 0xFF 0 0xFF"]
    get_pin_range [of "- 1" "tca_at [] 0xFF 0 0xFF"]
  by simp

text \<open>
  Claim C3 says that \<open>write_pin\<close> sets or clears bit \<open>pin\<close> of the cached output byte,
  hands the byte to \<open>write_gpio\<close> and does not fail for a pin in 0..7. The code reads
  \<open>self.output\<close>, an attribute that does not exist: for every pin and value the call
  raises AttributeError before anything is stored or sent.
\<close>

theorem write_pin_raises: "write_pin pin val s = (Inl AttributeError, s)"
  by (simp add: write_pin_def seq_def self_output_def raise_def)

text \<open>
  Claim C2 says that the polarity getter returns bit \<open>p\<close> of the cached inversion mask.
  The code computes \<open>inv & ((1<<p) >> p)\<close>, that is \<open>inv & 1\<close>: for pin 1 it returns 0 on
  the mask 0x02, whose bit 1 is set, and 1 on the mask 0x01, whose bit 1 is clear.
\<close>

theorem invert_polarity_get_reads_bit_0:
  "fst (invert_polarity_get (DigitalInOut_init 1) (tca_at [] 0xFF 0x02 0xFF)) = Inr 0
   \<and> bit (tca_inversion (tca_at [] 0xFF 0x02 0xFF)) 1
   \<and> fst (invert_polarity_get (DigitalInOut_init 1) (tca_at [] 0xFF 0x01 0xFF)) = Inr 1
   \<and> \<not> bit (tca_inversion (tca_at [] 0xFF 0x01 0xFF)) 1"
  by (simp add: invert_polarity_get_def seq_def get_inversion_def lift_def lshift_def rshift_def
      ret_def DigitalInOut_init_def tca_at_def)

text \<open>
  Claim C1 says that setting pin \<open>p\<close> to Output leaves the cached configuration bits of the
  other pins alone. The code hands \<open>((conf & (1<<p)) >> p) & ~(1<<p)\<close> to \<open>set_iodir\<close>:
  with all eight pins inputs (0xFF), the direction setter and \<open>switch_to_output\<close> on pin 1
  both leave the configuration 0x01, so that bit 2, set before, is clear after.
\<close>

theorem direction_output_clears_other_pins:
  "tca_configuration (snd (direction_set (DigitalInOut_init 1) (Some OUTPUT)
      (tca_at [Ack 0] 0xFF 0 0xFF))) = 0x01
   \<and> tca_configuration (snd (switch_to_output (DigitalInOut_init 1) False
      (tca_at [Ack 0, Ack 0] 0xFF 0 0xFF))) = 0x01
   \<and> bit (tca_configuration (tca_at [Ack 0] 0xFF 0 0xFF)) 2
   \<and> \<not> bit (1 :: int) 2"
  by (simp add: direction_set_def switch_to_output_def iodir_for_output_def seq_def
      get_configuration_def get_output_def lift_def lshift_def rshift_def ret_def
      write_gpio_eq set_iodir_eq on_device_def i2c_write_def transact_def Let_def
      DigitalInOut_init_def tca_at_def)

section \<open>A failing bus write\<close>

text \<open>
  Claim C4 says that when the bus write of \<open>write_gpio\<close>, \<open>set_iodir\<close> or \<open>set_inv\<close>
  fails, the cached byte keeps the value it had before the call. Each of the three stores
  the new byte first and writes to the bus afterwards, and nothing restores the old byte:
  on a bus that does not acknowledge, \<open>write_gpio 0\<close> raises OSError and leaves the cached
  output byte 0 where it was 0xFF, and the other two setters do the same to their bytes.
\<close>

theorem setter_failure_counterexample:
  "fst (write_gpio 0 (tca_at [Nack] 0xFF 0 0xFF)) = Inl OSError
   \<and> tca_output (snd (write_gpio 0 (tca_at [Nack] 0xFF 0 0xFF))) \<noteq> tca_output (tca_at [Nack] 0xFF 0 0xFF)
   \<and> fst (set_iodir 0 (tca_at [Nack] 0xFF 0 0xFF)) = Inl OSError
   \<and> tca_configuration (snd (set_iodir 0 (tca_at [Nack] 0xFF 0 0xFF)))
        \<noteq> tca_configuration (tca_at [Nack] 0xFF 0 0xFF)
   \<and> fst (set_inv 0xFF (tca_at [Nack] 0xFF 0 0xFF)) = Inl OSError
   \<and> tca_inversion (snd (set_inv 0xFF (tca_at [Nack] 0xFF 0 0xFF)))
        \<noteq> tca_inversion (tca_at [Nack] 0xFF 0 0xFF)"
  by (simp add: write_gpio_eq set_iodir_eq set_inv_eq on_device_cache on_device_write_fails
      next_fails_def pending_def tca_at_def)

text \<open>
  Claim C4 as the code has it: when the bus write fails, the setter raises OSError, the
  byte it caches holds the new value, the argument masked with 0xFF, and the other two
  cached bytes are as before.
\<close>

theorem setter_failure_keeps_new_byte:
  assumes "next_fails s"
  shows "fst (write_gpio val s) = Inl OSError
         \<and> tca_output (snd (write_gpio val s)) = val AND 255
         \<and> tca_inversion (snd (write_gpio val s)) = tca_inversion s
         \<and> tca_configuration (snd (write_gpio val s)) = tca_configuration s
         \<and> fst (set_iodir val s) = Inl OSError
         \<and> tca_configuration (snd (set_iodir val s)) = val AND 255
         \<and> tca_output (snd (set_iodir val s)) = tca_output s
         \<and> tca_inversion (snd (set_iodir val s)) = tca_inversion s
         \<and> fst (set_inv val s) = Inl OSError
         \<and> tca_inversion (snd (set_inv val s)) = val AND 255
         \<and> tca_output (snd (set_inv val s)) = tca_output s
         \<and> tca_configuration (snd (set_inv val s)) = tca_configuration s"
proof -
  have "next_fails (s\<lparr>tca_output := x\<rparr>)" "next_fails (s\<lparr>tca_configuration := x\<rparr>)"
    "next_fails (s\<lparr>tca_inversion := x\<rparr>)" for x
    using assms by (simp_all add: next_fails_def pending_def)
  then show ?thesis
    by (simp add: write_gpio_eq set_iodir_eq set_inv_eq on_device_cache on_device_write_fails)
qed

theorem setter_failure_keeps_new_byte_witness:
  "next_fails (tca_at [Nack] 0xFF 0 0xFF)
   \<and> fst (write_gpio 0x12 (tca_at [Nack] 0xFF 0 0xFF)) = Inl OSError
   \<and> tca_output (snd (write_gpio 0x12 (tca_at [Nack] 0xFF 0 0xFF))) = 0x12
   \<and> tca_configuration (snd (set_iodir 0x12 (tca_at [Nack] 0xFF 0 0xFF))) = 0x12
   \<and> tca_inversion (snd (set_inv 0x12 (tca_at [Nack] 0xFF 0 0xFF))) = 0x12"
proof -
  have h: "next_fails (tca_at [Nack] 0xFF 0 0xFF)"
    by (simp add: next_fails_def pending_def tca_at_def)
  show ?thesis
    using h setter_failure_keeps_new_byte [OF h, of "0x12"] by simp
qed

section \<open>The value getter\<close>

lemma pick_bit: "drop_bit n (g :: int) AND drop_bit n (2 ^ n) = of_bool (bit g n)"
  by (rule bit_eqI) (auto simp add: bit_drop_bit_eq bit_and_iff bit_exp_iff bit_of_bool_iff)

text \<open>
  Claim C9. For a handle of pin \<open>p\<close> in 0..7 the value getter requests exactly one
  transaction, a one-byte read of the INPUT register; when the bus answers with the byte
  \<open>b\<close> the result is bit \<open>p\<close> of \<open>b\<close> (1 or 0), and when the read fails it is OSError.
  The three cached bytes are left alone, and the result is the same whatever they hold,
  the direction bits included: no cached byte is consulted.
\<close>

theorem value_get_reads_input:
  assumes "0 \<le> dio_pin d" and "dio_pin d \<le> 7"
  shows "transactions (snd (value_get d s)) =
           transactions s @
             [Writeto_then_readfrom (device_address (i2c_device s)) [TCA9534_REGISTER_INPUT_PORT] 1]
         \<and> fst (value_get d s) =
             (case pending s of
                Ack b # rs \<Rightarrow> Inr (of_bool (bit b (nat (dio_pin d))))
              | _ \<Rightarrow> Inl OSError)
         \<and> tca_output (snd (value_get d s)) = tca_output s
         \<and> tca_inversion (snd (value_get d s)) = tca_inversion s
         \<and> tca_configuration (snd (value_get d s)) = tca_configuration s
         \<and> fst (value_get d (s\<lparr>tca_output := x, tca_inversion := y, tca_configuration := z\<rparr>)) =
             fst (value_get d s)"
proof -
  have "nat (dio_pin d) < 8" using assms by simp
  then show ?thesis
    using assms(1)
    by (simp add: value_get_def read_gpio_def seq_def lift_def lshift_def rshift_def
        on_device_def i2c_write_then_readinto_def transact_def Let_def transactions_def
        pending_def pick_bit bit_uint_iff
        split: list.splits reply.splits)
qed

theorem value_get_reads_input_witness:
  "value_get (DigitalInOut_init 3) (tca_at [Ack 0x08] 0 0 0) =
     (Inr 1, \<lparr>i2c_device = \<lparr>i2c = \<lparr>bus_trace = [Writeto_then_readfrom 0x20 [0] 1], bus_script = []\<rparr>,
                     device_address = 0x20\<rparr>,
              tca_output = 0, tca_inversion = 0, tca_configuration = 0\<rparr>)"
  using value_get_reads_input [of "DigitalInOut_init 3" "tca_at [Ack 0x08] 0 0 0" 0 0 0]
  by (simp add: DigitalInOut_init_def tca_at_def TCA9534_DEFAULT_I2C_ADDR_def
      TCA9534_REGISTER_INPUT_PORT_def value_get_def read_gpio_def seq_def lift_def lshift_def rshift_def
      on_device_def i2c_write_then_readinto_def transact_def Let_def)

section \<open>The constructor\<close>



lemma probe_cases:
  assumes "I2CDevice_init bus a = (r, dev)"
  shows "device_address dev = a"
    and "r = Inr () \<and> bus_trace (i2c dev) = bus_trace bus @ probe_txns a (probe_acked bus)
         \<or> r = Inl ValueError \<and> \<not> probe_acked bus
             \<and> bus_trace (i2c dev) = bus_trace bus @ [Writeto a [], Readfrom a 1]"
  using assms
  by (auto simp add: I2CDevice_init_def probe_for_device_def transact_def Let_def
      probe_txns_def probe_acked_def split: list.splits reply.splits)





lemma init_after_probe:
  assumes "I2CDevice_init bus a = (r, dev)"
  shows "r = Inr () \<Longrightarrow>
           init bus a reset = init_registers reset
             \<lparr>i2c_device = dev, tca_output = 0, tca_inversion = 0, tca_configuration = 0\<rparr>"
    and "r = Inl ValueError \<Longrightarrow>
           init bus a reset = (Inl ValueError,
             \<lparr>i2c_device = dev, tca_output = 0, tca_inversion = 0, tca_configuration = 0\<rparr>)"
  using assms by (simp_all add: init_def)




section \<open>The cached bytes stay bytes\<close>

lemma preserves_seq: "preserves m \<Longrightarrow> (\<And>x. preserves (f x)) \<Longrightarrow> preserves (seq m f)"
  by (auto simp add: preserves_def seq_def split: prod.splits sum.splits)

lemma preserves_const: "preserves (ret x)" "preserves (raise e)" "preserves (lift r)"
  "preserves get_output" "preserves get_inversion" "preserves get_configuration"
  by (simp_all add: preserves_def ret_def raise_def lift_def get_output_def get_inversion_def
      get_configuration_def)

lemma preserves_set: "preserves (set_output v)" "preserves (set_inversion v)"
  "preserves (set_configuration v)"
  by (simp_all add: preserves_def set_output_def set_inversion_def set_configuration_def
      cache_in_range_def)

lemma preserves_on_device: "preserves (on_device f)"
  by (simp add: preserves_def cache_in_range_def on_device_cache)

lemmas preserves_basic = preserves_seq preserves_const preserves_set preserves_on_device

lemma preserves_port: "preserves read_gpio" "preserves (write_gpio v)" "preserves (set_iodir v)"
  "preserves get_iodir" "preserves get_inv" "preserves (set_inv v)" "preserves (get_pin p)"
  "preserves (write_pin p b)" "preserves (read_pin p)"
  by (simp_all add: read_gpio_def write_gpio_def set_iodir_def get_iodir_def get_inv_def
      set_inv_def get_pin_def write_pin_def read_pin_def self_output_def preserves_basic)

lemma preserves_pin: "preserves (switch_to_output d b)" "preserves (switch_to_input d)"
  "preserves (value_get d)" "preserves (value_set d b)" "preserves (direction_get d)"
  "preserves (direction_set d v)" "preserves (invert_polarity_get d)"
  "preserves (invert_polarity_set d b)"
  by (simp_all add: switch_to_output_def switch_to_input_def value_get_def value_set_def
      direction_get_def direction_set_def invert_polarity_get_def invert_polarity_set_def
      iodir_for_output_def iodir_for_input_def preserves_basic preserves_port)

lemma perform_in_range: "cache_in_range s \<Longrightarrow> cache_in_range (perform c s)"
  using preserves_port preserves_pin by (cases c) (simp_all add: preserves_def)

lemma run_in_range: "cache_in_range s \<Longrightarrow> cache_in_range (run cs s)"
  by (induction cs arbitrary: s) (simp_all add: perform_in_range)

lemma init_in_range: "cache_in_range (snd (init bus a reset))"
proof -
  obtain r dev where probe: "I2CDevice_init bus a = (r, dev)"
    by (cases "I2CDevice_init bus a")
  let ?s0 = "\<lparr>i2c_device = dev, tca_output = 0, tca_inversion = 0, tca_configuration = 0\<rparr>"
  have start: "cache_in_range ?s0"
    by (simp add: cache_in_range_def is_byte_def)
  have "preserves (init_registers reset)"
    by (simp add: init_registers_def reset_registers_def read_back_def preserves_basic)
  with start have "cache_in_range (snd (init_registers reset ?s0))"
    unfolding preserves_def by blast
  with start show ?thesis
    using probe_cases(2) [OF probe] init_after_probe [OF probe, of reset] by auto
qed

text \<open>
  Claim C10. After the constructor and any sequence of calls, on the object or on pin
  handles, whatever their arguments and whatever the bus does, each of the three cached
  bytes is in 0..255. Each of \<open>write_gpio\<close>, \<open>set_iodir\<close> and \<open>set_inv\<close> caches its
  argument modulo 256 and requests one write of that byte to its register, for every
  integer argument; its result is OSError when the bus fails and nothing else: no
  argument makes it raise ValueError.
\<close>

theorem cached_bytes_in_range:
  "cache_in_range (run calls (snd (init bus a reset)))
   \<and> tca_output (snd (write_gpio val s)) = val mod 256
   \<and> transactions (snd (write_gpio val s)) =
       transactions s @
         [Writeto (device_address (i2c_device s)) [TCA9534_REGISTER_OUTPUT_PORT, val mod 256]]
   \<and> fst (write_gpio val s) = (if next_fails s then Inl OSError else Inr ())
   \<and> tca_configuration (snd (set_iodir val s)) = val mod 256
   \<and> transactions (snd (set_iodir val s)) =
       transactions s @
         [Writeto (device_address (i2c_device s)) [TCA9534_REGISTER_CONFIGURATION, val mod 256]]
   \<and> fst (set_iodir val s) = (if next_fails s then Inl OSError else Inr ())
   \<and> tca_inversion (snd (set_inv val s)) = val mod 256
   \<and> transactions (snd (set_inv val s)) =
       transactions s @
         [Writeto (device_address (i2c_device s)) [TCA9534_REGISTER_INVERSION, val mod 256]]
   \<and> fst (set_inv val s) = (if next_fails s then Inl OSError else Inr ())"
proof -
  have "next_fails (s\<lparr>tca_output := x\<rparr>) = next_fails s"
    "next_fails (s\<lparr>tca_configuration := x\<rparr>) = next_fails s"
    "next_fails (s\<lparr>tca_inversion := x\<rparr>) = next_fails s"
    "transactions (s\<lparr>tca_output := x\<rparr>) = transactions s"
    "transactions (s\<lparr>tca_configuration := x\<rparr>) = transactions s"
    "transactions (s\<lparr>tca_inversion := x\<rparr>) = transactions s" for x
    by (simp_all add: next_fails_def pending_def transactions_def)
  then show ?thesis
    by (simp add: run_in_range init_in_range write_gpio_eq set_iodir_eq set_inv_eq
        on_device_cache on_device_write_trace on_device_write_result and_255_mod)
qed

theorem cached_bytes_in_range_witness:
  "cache_in_range (run [Write_gpio 0x1FF, Switch_to_output 9 True, Set_inv (- 1), Direction_set (- 2) None]
      (snd (init \<lparr>bus_trace = [], bus_script = [Ack 0, Ack 1, Ack 2, Ack 3]\<rparr> 0x20 False)))
   \<and> write_gpio 0x1FF (tca_at [Ack 0] 0 0 0) =
       (Inr (), \<lparr>i2c_device = \<lparr>i2c = \<lparr>bus_trace = [Writeto 0x20 [0x01, 0xFF]], bus_script = []\<rparr>,
                      device_address = 0x20\<rparr>,
                 tca_output = 0xFF, tca_inversion = 0, tca_configuration = 0\<rparr>)
   \<and> tca_inversion (snd (set_inv (- 1) (tca_at [Ack 0] 0 0 0))) = 0xFF
   \<and> tca_configuration (snd (set_iodir 256 (tca_at [Ack 0] 0 0 0))) = 0"
  using cached_bytes_in_range [of "[Write_gpio 0x1FF, Switch_to_output 9 True, Set_inv (- 1), Direction_set (- 2) None]"
      "\<lparr>bus_trace = [], bus_script = [Ack 0, Ack 1, Ack 2, Ack 3]\<rparr>" "0x20" False "0x1FF" "tca_at [Ack 0] 0 0 0"]
    cached_bytes_in_range [of "[]" "\<lparr>bus_trace = [], bus_script = []\<rparr>" 0 False "- 1" "tca_at [Ack 0] 0 0 0"]
    cached_bytes_in_range [of "[]" "\<lparr>bus_trace = [], bus_script = []\<rparr>" 0 False "256" "tca_at [Ack 0] 0 0 0"]
  by (simp add: write_gpio_eq on_device_def i2c_write_def transact_def Let_def tca_at_def
      TCA9534_DEFAULT_I2C_ADDR_def TCA9534_REGISTER_OUTPUT_PORT_def)

end
